theory Spec2Isabelle
  imports Main
begin

section \<open>JavaScript values\<close>

text \<open>
  The widget's only state is \<^verbatim>\<open>activeTab\<close>, a JavaScript number. Every value the code
  stores in it is \<^verbatim>\<open>0\<close>, an index produced by \<^verbatim>\<open>React.Children.map\<close>, or the result
  of adding or subtracting \<^verbatim>\<open>1\<close>, so a number is an integer or \<^verbatim>\<open>NaN\<close>. (Array lengths
  are below \<open>2 ^ 32\<close>, far inside the range where doubles represent integers exactly.)
  A value that may be \<^verbatim>\<open>undefined\<close> is a \<open>jsnum option\<close> with \<open>None\<close> for
  \<^verbatim>\<open>undefined\<close>. The only exception the code can raise is a \<^verbatim>\<open>TypeError\<close>, from reading
  a property of \<^verbatim>\<open>undefined\<close> or \<^verbatim>\<open>null\<close>.
\<close>

datatype jsnum = Num int | NaN

datatype error = TypeError

text \<open>\<^verbatim>\<open>ToNumber(undefined)\<close> is \<^verbatim>\<open>NaN\<close>.\<close>

definition ToNumber :: "jsnum option \<Rightarrow> jsnum" where
  "ToNumber v = (case v of None \<Rightarrow> NaN | Some n \<Rightarrow> n)"

fun js_plus :: "jsnum \<Rightarrow> jsnum \<Rightarrow> jsnum" where
  "js_plus (Num a) (Num b) = Num (a + b)"
| "js_plus _ _ = NaN"

fun js_minus :: "jsnum \<Rightarrow> jsnum \<Rightarrow> jsnum" where
  "js_minus (Num a) (Num b) = Num (a - b)"
| "js_minus _ _ = NaN"

text \<open>\<^verbatim>\<open>===\<close> on numbers: \<^verbatim>\<open>NaN\<close> equals nothing, itself included.\<close>

fun strict_eq :: "jsnum \<Rightarrow> jsnum \<Rightarrow> bool" where
  "strict_eq (Num a) (Num b) = (a = b)"
| "strict_eq _ _ = False"

definition strict_neq :: "jsnum \<Rightarrow> jsnum \<Rightarrow> bool" where
  "strict_neq a b = (\<not> strict_eq a b)"

section \<open>The \<^verbatim>\<open>children\<close> prop\<close>

text \<open>
  React stores the children of an element in \<^verbatim>\<open>props.children\<close> as they were written:
  nothing at all (\<^verbatim>\<open>undefined\<close>) when the element has no child, the child itself when it
  has exactly one, and an array when it has two or more or when the host passes an array
  (\<^verbatim>\<open>{items.map(...)}\<close>, of any length, zero and one included). An item of that array is
  an element or again an array: \<^verbatim>\<open><TabList><Tab/>{items.map(...)}</TabList>\<close> has the two
  items \<^verbatim>\<open>[element, [element, ...]]\<close>. \<open>Array\<close> is an array of elements; \<open>Nested\<close> is an
  array whose items may be arrays. Strings and empty nodes are left out. The file's own
  \<^verbatim>\<open>PropTypes\<close> declare every \<^verbatim>\<open>children\<close> prop as \<^verbatim>\<open>PropTypes.element\<close>, a single element.
\<close>

datatype 'a node = Element 'a | Items "'a node list"

datatype 'a children = Missing | Single 'a | Array "'a list" | Nested "'a node list"

text \<open>The elements of a node in document order, as React traverses them.\<close>

fun flatten :: "'a node \<Rightarrow> 'a list" where
  "flatten (Element c) = [c]"
| "flatten (Items ns) = concat (map flatten ns)"

text \<open>
  \<^verbatim>\<open>React.Children.map(children, fn)\<close> and \<^verbatim>\<open>React.Children.count(children)\<close> treat the
  shapes alike: no child, one child, the elements of the array in order, with the arrays
  inside it flattened and one running index over all of them.
\<close>

fun Children_map :: "'a children \<Rightarrow> ('a \<Rightarrow> nat \<Rightarrow> 'b) \<Rightarrow> 'b list" where
  "Children_map Missing fn = []"
| "Children_map (Single c) fn = [fn c 0]"
| "Children_map (Array cs) fn = map (\<lambda>(c, index). fn c index) (zip cs [0..<length cs])"
| "Children_map (Nested ns) fn =
     map (\<lambda>(c, index). fn c index)
       (zip (concat (map flatten ns)) [0..<length (concat (map flatten ns))])"

fun Children_count :: "'a children \<Rightarrow> nat" where
  "Children_count Missing = 0"
| "Children_count (Single c) = 1"
| "Children_count (Array cs) = length cs"
| "Children_count (Nested ns) = length (concat (map flatten ns))"

text \<open>
  The source maps over children this way on lines 62 and 93. On lines 39 and 168 it reads
  \<^verbatim>\<open>children[k]\<close> and \<^verbatim>\<open>children.length\<close> as plain JavaScript, and these reads do not: on
  \<^verbatim>\<open>undefined\<close> they throw, on a lone element (an object with neither numeric properties
  nor a \<^verbatim>\<open>length\<close>) they give \<^verbatim>\<open>undefined\<close>, and on an array they see the items as
  written, an inner array as one item; an index out of range, negative or \<^verbatim>\<open>NaN\<close> gives
  \<^verbatim>\<open>undefined\<close>.
\<close>

fun children_at :: "'a children \<Rightarrow> jsnum \<Rightarrow> error + 'a node option" where
  "children_at Missing k = Inl TypeError"
| "children_at (Single c) k = Inr None"
| "children_at (Array cs) NaN = Inr None"
| "children_at (Array cs) (Num i) =
     Inr (if 0 \<le> i \<and> i < int (length cs) then Some (Element (cs ! nat i)) else None)"
| "children_at (Nested ns) NaN = Inr None"
| "children_at (Nested ns) (Num i) =
     Inr (if 0 \<le> i \<and> i < int (length ns) then Some (ns ! nat i) else None)"

fun children_length :: "'a children \<Rightarrow> error + jsnum option" where
  "children_length Missing = Inl TypeError"
| "children_length (Single c) = Inr None"
| "children_length (Array cs) = Inr (Some (Num (int (length cs))))"
| "children_length (Nested ns) = Inr (Some (Num (int (length ns))))"

section \<open>Elements supplied by the host\<close>

record tab_el =
  ariaControls :: string
  ariaLabelledbyId :: string
  tab_children :: string

record panel_el =
  controlsId :: string
  ariaLabelledby :: string
  panel_children :: string

text \<open>A direct child of \<^verbatim>\<open>TabPanel\<close>: a \<^verbatim>\<open>TabList\<close> element (label, tabs) or a \<^verbatim>\<open>Panels\<close> element.\<close>

datatype child_el = TabListEl string "tab_el children" | PanelsEl "panel_el children"

fun props_children_length :: "child_el \<Rightarrow> error + jsnum option" where
  "props_children_length (TabListEl ariaLabel tabs) = children_length tabs"
| "props_children_length (PanelsEl panels) = children_length panels"

section \<open>TabPanel: keyboard navigation\<close>

record key_event =
  key :: string
  defaultPrevented :: bool

definition preventDefault :: "key_event \<Rightarrow> key_event" where
  "preventDefault e = e\<lparr>defaultPrevented := True\<rparr>"

text \<open>
  Line 39: \<^verbatim>\<open>const tabListLength = children[0].props.children.length\<close>. An array at
  \<^verbatim>\<open>children[0]\<close> has no \<^verbatim>\<open>props\<close>, and the read of \<^verbatim>\<open>children\<close> on it throws.
\<close>

definition tabListLength :: "child_el children \<Rightarrow> error + jsnum option" where
  "tabListLength cs =
     (case children_at cs (Num 0) of
        Inl err \<Rightarrow> Inl err
      | Inr None \<Rightarrow> Inl TypeError
      | Inr (Some (Element c)) \<Rightarrow> props_children_length c
      | Inr (Some (Items ns)) \<Rightarrow> Inl TypeError)"

text \<open>
  \<^verbatim>\<open>handleKeyPress\<close> is a closure over the children and the \<^verbatim>\<open>activeTab\<close> of the render
  that created it. It returns the \<^verbatim>\<open>activeTab\<close> of the next render (the argument of
  \<^verbatim>\<open>setActiveTab\<close>, or the old value when \<^verbatim>\<open>setActiveTab\<close> is not called) and the event
  as the handler leaves it. The only statement that can throw is the first, before any
  effect: \<open>Inl\<close> means that neither the state nor the event was touched.
\<close>

definition handleKeyPress ::
  "child_el children \<Rightarrow> jsnum \<Rightarrow> key_event \<Rightarrow> error + jsnum \<times> key_event" where
  "handleKeyPress cs activeTab e =
     (case tabListLength cs of
        Inl err \<Rightarrow> Inl err
      | Inr len \<Rightarrow>
          if key e = ''ArrowLeft'' then
            (if strict_neq activeTab (Num 0)
             then Inr (js_minus activeTab (Num 1), preventDefault e)
             else Inr (js_minus (ToNumber len) (Num 1), preventDefault e))
          else if key e = ''ArrowRight'' then
            (if strict_neq activeTab (js_minus (ToNumber len) (Num 1))
             then Inr (js_plus activeTab (Num 1), preventDefault e)
             else Inr (Num 0, preventDefault e))
          else if key e = ''Home'' then
            Inr (Num 0, preventDefault e)
          else if key e = ''End'' then
            Inr (js_minus (ToNumber len) (Num 1), preventDefault e)
          else Inr (activeTab, e))"

section \<open>TabPanel: state and selection\<close>

text \<open>Line 25: \<^verbatim>\<open>useState(0)\<close>.\<close>

definition initial_activeTab :: jsnum where
  "initial_activeTab = Num 0"

text \<open>
  \<^verbatim>\<open>setActiveTab(v)\<close> replaces the state, whatever it was: a state transformer that
  ignores the old value.
\<close>

definition setActiveTab :: "jsnum \<Rightarrow> jsnum \<Rightarrow> jsnum" where
  "setActiveTab v activeTab = v"

text \<open>Line 66: \<^verbatim>\<open>onSelectTab: (idx) => setActiveTab(idx)\<close>.\<close>

definition TabPanel_onSelectTab :: "jsnum \<Rightarrow> jsnum \<Rightarrow> jsnum" where
  "TabPanel_onSelectTab idx = setActiveTab idx"

section \<open>Tab\<close>

text \<open>
  A ref handle is the object \<^verbatim>\<open>useRef()\<close> returns, known by its address. The props of a
  \<^verbatim>\<open>Tab\<close> are those the host wrote plus the four that \<^verbatim>\<open>TabList\<close> merges in with
  \<^verbatim>\<open>cloneElement\<close>. A callback is the state transformer it performs.
\<close>

type_synonym ref_handle = nat

record tab_props = tab_el +
  active :: bool
  onSelectTab :: "jsnum \<Rightarrow> jsnum"
  handleKeyPress_prop :: "key_event \<Rightarrow> error + jsnum \<times> key_event"
  tabFocus :: ref_handle

record button =
  role :: string
  aria_selected :: bool
  aria_controls :: string
  id_attr :: string
  tabIndex :: int
  className :: string
  ref :: "ref_handle option"
  onClick :: "jsnum \<Rightarrow> jsnum"
  onKeyDown :: "key_event \<Rightarrow> error + jsnum \<times> key_event"
  button_children :: string

text \<open>Lines 127-147. \<^verbatim>\<open>classNames('tab', {activeTab: active})\<close> joins the names in use.\<close>

definition Tab :: "tab_props \<Rightarrow> button" where
  "Tab p =
     \<lparr>role = ''tab'',
      aria_selected = active p,
      aria_controls = ariaControls p,
      id_attr = ariaLabelledbyId p,
      tabIndex = (if active p then 0 else - 1),
      className = (if active p then ''tab activeTab'' else ''tab''),
      ref = (if active p then Some (tabFocus p) else None),
      onClick = onSelectTab p,
      onKeyDown = handleKeyPress_prop p,
      button_children = tab_children p\<rparr>"

section \<open>TabList\<close>

text \<open>
  Lines 93-100: the props each child is cloned with. The \<^verbatim>\<open>console.log\<close> of line 92 has
  no effect on the widget and is left out.
\<close>

definition TabList_child ::
  "tab_el children \<Rightarrow> jsnum \<Rightarrow> (jsnum \<Rightarrow> jsnum \<Rightarrow> jsnum) \<Rightarrow>
   (key_event \<Rightarrow> error + jsnum \<times> key_event) \<Rightarrow> ref_handle \<Rightarrow> tab_props list" where
  "TabList_child cs activeTab onSel onKey tf =
     Children_map cs (\<lambda>child index.
       \<lparr>ariaControls = ariaControls child,
        ariaLabelledbyId = ariaLabelledbyId child,
        tab_children = tab_children child,
        active = strict_eq (Num (int index)) activeTab,
        onSelectTab = onSel (Num (int index)),
        handleKeyPress_prop = onKey,
        tabFocus = tf\<rparr>)"

record tablist_div =
  tablist_role :: string
  tablist_aria_label :: string
  tablist_className :: string
  tablist_children :: "button list"

text \<open>Line 102, with every cloned \<^verbatim>\<open>Tab\<close> rendered to its button.\<close>

definition TabList ::
  "tab_el children \<Rightarrow> jsnum \<Rightarrow> (jsnum \<Rightarrow> jsnum \<Rightarrow> jsnum) \<Rightarrow>
   (key_event \<Rightarrow> error + jsnum \<times> key_event) \<Rightarrow> string \<Rightarrow> ref_handle \<Rightarrow> tablist_div" where
  "TabList cs activeTab onSel onKey ariaLabel tf =
     \<lparr>tablist_role = ''tablist'',
      tablist_aria_label = ariaLabel,
      tablist_className = ''tabList'',
      tablist_children = map Tab (TabList_child cs activeTab onSel onKey tf)\<rparr>"

section \<open>Panel and Panels\<close>

record panel_div =
  panel_role :: string
  panel_aria_labelledby :: string
  panel_id :: string
  panel_tabIndex :: string
  panel_className :: string
  panel_div_children :: string

text \<open>Lines 183-193.\<close>

definition Panel :: "panel_el \<Rightarrow> panel_div" where
  "Panel p =
     \<lparr>panel_role = ''tabpanel'',
      panel_aria_labelledby = ariaLabelledby p,
      panel_id = controlsId p,
      panel_tabIndex = ''0'',
      panel_className = ''panel'',
      panel_div_children = panel_children p\<rparr>"

text \<open>
  Lines 167-169: \<^verbatim>\<open><>{children[activeTab]}</>\<close>. An \<^verbatim>\<open>undefined\<close> child renders nothing,
  an element renders its panel, and an array renders every panel in it; the result is the
  list of panels on the page.
\<close>

definition Panels :: "panel_el children \<Rightarrow> jsnum \<Rightarrow> error + panel_div list" where
  "Panels cs activeTab =
     (case children_at cs activeTab of
        Inl err \<Rightarrow> Inl err
      | Inr None \<Rightarrow> Inr []
      | Inr (Some c) \<Rightarrow> Inr (map Panel (flatten c)))"

section \<open>TabPanel: rendering\<close>

datatype rendered = RTabList tablist_div | RPanels "panel_div list"

text \<open>
  Lines 62-72: every direct child is cloned with \<^verbatim>\<open>activeTab\<close>, \<^verbatim>\<open>onSelectTab\<close>,
  \<^verbatim>\<open>handleKeyPress\<close> and \<^verbatim>\<open>tabFocus\<close>, and rendered by its own component.
\<close>

definition render_child ::
  "child_el children \<Rightarrow> jsnum \<Rightarrow> ref_handle \<Rightarrow> child_el \<Rightarrow> error + rendered" where
  "render_child cs activeTab tf c =
     (case c of
        TabListEl ariaLabel tabs \<Rightarrow>
          Inr (RTabList (TabList tabs activeTab TabPanel_onSelectTab
                           (handleKeyPress cs activeTab) ariaLabel tf))
      | PanelsEl panels \<Rightarrow>
          (case Panels panels activeTab of
             Inl err \<Rightarrow> Inl err
           | Inr ps \<Rightarrow> Inr (RPanels ps)))"

fun all_or_error :: "(error + 'a) list \<Rightarrow> error + 'a list" where
  "all_or_error [] = Inr []"
| "all_or_error (Inl err # rs) = Inl err"
| "all_or_error (Inr x # rs) =
     (case all_or_error rs of Inl err \<Rightarrow> Inl err | Inr xs \<Rightarrow> Inr (x # xs))"

definition TabPanel :: "child_el children \<Rightarrow> jsnum \<Rightarrow> ref_handle \<Rightarrow> error + rendered list" where
  "TabPanel cs activeTab tf =
     all_or_error (Children_map cs (\<lambda>child index. render_child cs activeTab tf child))"

section \<open>TabPanel: focus after each render\<close>

text \<open>
  When React commits a render it writes each DOM node into the ref handle the node was
  rendered with, in document order, and leaves \<^verbatim>\<open>null\<close> in a handle that no node holds.
  A DOM node of the tab list is known by its position among the buttons; \<open>None\<close> stands
  for \<^verbatim>\<open>null\<close> and \<^verbatim>\<open>undefined\<close> alike.
\<close>

definition ref_current :: "ref_handle \<Rightarrow> button list \<Rightarrow> nat option" where
  "ref_current r bs =
     (case filter (\<lambda>j. ref (bs ! j) = Some r) [0..<length bs] of
        [] \<Rightarrow> None
      | j # js \<Rightarrow> Some (last (j # js)))"

text \<open>
  Lines 28-30: \<^verbatim>\<open>useEffect(() => { tabFocus.current.focus(); })\<close>, with no dependency list,
  runs after every commit, the first included. It returns the node that holds the focus.
\<close>

definition focus_effect :: "nat option \<Rightarrow> error + nat" where
  "focus_effect current = (case current of None \<Rightarrow> Inl TypeError | Some node \<Rightarrow> Inr node)"

text \<open>
  One update of the widget: \<^verbatim>\<open>TabPanel\<close> renders, React commits the buttons of the tab
  list and their refs, and the effect runs.
\<close>

definition rendered_buttons :: "rendered list \<Rightarrow> button list" where
  "rendered_buttons rs =
     concat (map (\<lambda>r. case r of RTabList t \<Rightarrow> tablist_children t | RPanels ps \<Rightarrow> []) rs)"

definition after_render :: "child_el children \<Rightarrow> jsnum \<Rightarrow> ref_handle \<Rightarrow> error + nat" where
  "after_render cs activeTab tf =
     (case TabPanel cs activeTab tf of
        Inl err \<Rightarrow> Inl err
      | Inr rs \<Rightarrow> focus_effect (ref_current tf (rendered_buttons rs)))"

section \<open>Configurations\<close>

text \<open>The invariant of the data model: \<open>0 \<le> ActiveIndex < tabCount\<close>.\<close>

fun in_range :: "nat \<Rightarrow> jsnum \<Rightarrow> bool" where
  "in_range n (Num i) = (0 \<le> i \<and> i < int n)"
| "in_range n NaN = False"

text \<open>
  The example of the doc comment (lines 11-22), the same widget with a single tab and a
  single panel written as JSX children, and one whose tab list is an empty array.
\<close>

definition drip_tab :: tab_el where
  "drip_tab = \<lparr>ariaControls = ''dripCoffeeTab'', ariaLabelledbyId = ''drip coffee'',
                tab_children = ''Drip Coffee''\<rparr>"

definition latte_tab :: tab_el where
  "latte_tab = \<lparr>ariaControls = ''latteTab'', ariaLabelledbyId = ''latte'',
                 tab_children = ''Latte''\<rparr>"

definition espresso_tab :: tab_el where
  "espresso_tab = \<lparr>ariaControls = ''espressoTab'', ariaLabelledbyId = ''espresso'',
                    tab_children = ''Espresso''\<rparr>"

definition drip_panel :: panel_el where
  "drip_panel = \<lparr>controlsId = ''dripCoffeeTab'', ariaLabelledby = ''drip coffee'',
                  panel_children = ''This is the drip coffee panel''\<rparr>"

definition latte_panel :: panel_el where
  "latte_panel = \<lparr>controlsId = ''latteTab'', ariaLabelledby = ''latte'',
                   panel_children = ''This is the latte panel''\<rparr>"

definition espresso_panel :: panel_el where
  "espresso_panel = \<lparr>controlsId = ''espressoTab'', ariaLabelledby = ''espresso'',
                      panel_children = ''This is the espresso panel''\<rparr>"

definition coffee_tabs :: "tab_el children" where
  "coffee_tabs = Array [drip_tab, latte_tab, espresso_tab]"

definition coffee_panels :: "panel_el children" where
  "coffee_panels = Array [drip_panel, latte_panel, espresso_panel]"

definition coffee :: "child_el children" where
  "coffee = Array [TabListEl ''Types of coffee'' coffee_tabs, PanelsEl coffee_panels]"

definition one_tab :: "child_el children" where
  "one_tab = Array [TabListEl ''Types of coffee'' (Single drip_tab), PanelsEl (Single drip_panel)]"

definition no_tabs :: "child_el children" where
  "no_tabs = Array [TabListEl ''Types of coffee'' (Array []), PanelsEl (Array [])]"

text \<open>
  Three tabs, the first written out and the other two produced by a \<^verbatim>\<open>map\<close>:
  \<^verbatim>\<open><TabList><Tab>Drip Coffee</Tab>{[latte, espresso].map(...)}</TabList>\<close>.
\<close>

definition mixed_tabs :: "tab_el children" where
  "mixed_tabs = Nested [Element drip_tab, Items [Element latte_tab, Element espresso_tab]]"

definition mixed :: "child_el children" where
  "mixed = Array [TabListEl ''Types of coffee'' mixed_tabs, PanelsEl coffee_panels]"

definition pressed :: "string \<Rightarrow> key_event" where
  "pressed k = \<lparr>key = k, defaultPrevented = False\<rparr>"

section \<open>Reading the tab list\<close>

text \<open>An array without inner arrays reads the same in either form.\<close>

lemma flatten_Elements: "concat (map (flatten \<circ> Element) xs) = xs"
  by (induction xs) simp_all

lemma Nested_flat:
  "Children_count (Nested (map Element xs)) = Children_count (Array xs)"
  "Children_map (Nested (map Element xs)) fn = Children_map (Array xs) fn"
  "children_length (Nested (map Element xs)) = children_length (Array xs)"
  by (simp_all add: flatten_Elements)

lemma Nested_flat_at: "children_at (Nested (map Element xs)) k = children_at (Array xs) k"
proof (cases k)
  case (Num i)
  then show ?thesis by (auto simp: nat_less_iff)
next
  case NaN
  then show ?thesis by simp
qed

lemma tabListLength_Array:
  "tabListLength (Array (TabListEl l (Array ts) # rest)) = Inr (Some (Num (int (length ts))))"
  by (simp add: tabListLength_def)

lemma tabListLength_coffee: "tabListLength coffee = Inr (Some (Num 3))"
  by (simp add: coffee_def coffee_tabs_def tabListLength_def)

lemma tabListLength_one_tab: "tabListLength one_tab = Inr None"
  by (simp add: one_tab_def tabListLength_def)

lemma tabListLength_mixed: "tabListLength mixed = Inr (Some (Num 2))"
  by (simp add: mixed_def mixed_tabs_def tabListLength_def)

section \<open>Arrow keys\<close>

text \<open>
  With the tabs in an array of N elements and 0 \<le> ActiveIndex < N, ArrowRight moves
  ActiveIndex to ActiveIndex + 1 below N - 1 and to 0 at N - 1, and ArrowLeft moves it to
  ActiveIndex - 1 above 0 and to N - 1 at 0.
\<close>

lemma arrows_wrap_Array:
  assumes "0 \<le> i" and "i < int (length ts)"
  shows "handleKeyPress (Array (TabListEl l (Array ts) # rest)) (Num i) (e\<lparr>key := ''ArrowRight''\<rparr>) =
           Inr (Num (if i < int (length ts) - 1 then i + 1 else 0),
                preventDefault (e\<lparr>key := ''ArrowRight''\<rparr>))"
    and "handleKeyPress (Array (TabListEl l (Array ts) # rest)) (Num i) (e\<lparr>key := ''ArrowLeft''\<rparr>) =
           Inr (Num (if 0 < i then i - 1 else int (length ts) - 1),
                preventDefault (e\<lparr>key := ''ArrowLeft''\<rparr>))"
  using assms
  by (auto simp: handleKeyPress_def tabListLength_Array ToNumber_def strict_neq_def)

text \<open>
  C1. With N \<ge> 2 tabs and 0 \<le> ActiveIndex < N, ArrowRight moves ActiveIndex to
  ActiveIndex + 1 below N - 1 and to 0 at N - 1; ArrowLeft moves it to ActiveIndex - 1
  above 0 and to N - 1 at 0. With one \<^verbatim>\<open>Tab\<close> written out and two more produced by a
  \<^verbatim>\<open>map\<close>, \<^verbatim>\<open>TabList\<close> renders three tabs, indexed 0 to 2, and \<^verbatim>\<open>props.children\<close> has two
  items: \<^verbatim>\<open>tabListLength\<close> is 2, ArrowRight at 1 sets ActiveIndex to 0 where the next tab is
  2, and ArrowLeft at 0 sets it to 1 where the last tab is 2.
\<close>

theorem arrows_nested_tabs:
  "Children_count mixed_tabs = 3
   \<and> map tab_children (TabList_child mixed_tabs (Num 1) TabPanel_onSelectTab
                          (handleKeyPress mixed (Num 1)) 0)
       = [''Drip Coffee'', ''Latte'', ''Espresso'']
   \<and> tabListLength mixed = Inr (Some (Num 2))
   \<and> handleKeyPress mixed (Num 1) (pressed ''ArrowRight'')
       = Inr (Num 0, preventDefault (pressed ''ArrowRight''))
   \<and> handleKeyPress mixed (Num 0) (pressed ''ArrowLeft'')
       = Inr (Num 1, preventDefault (pressed ''ArrowLeft''))"
  by (simp add: handleKeyPress_def tabListLength_mixed ToNumber_def pressed_def strict_neq_def
        mixed_tabs_def TabList_child_def drip_tab_def latte_tab_def espresso_tab_def upt_rec)

section \<open>Home and End\<close>

text \<open>
  Home gives 0 whenever the handler gets past its first line, and End gives N - 1 when
  the tabs reach \<^verbatim>\<open>TabList\<close> as an array of N elements.
\<close>

lemma Home_sets_0:
  "tabListLength cs = Inr len \<Longrightarrow> key e = ''Home'' \<Longrightarrow>
   handleKeyPress cs a e = Inr (Num 0, preventDefault e)"
  by (simp add: handleKeyPress_def)

lemma End_sets_last_Array:
  "key e = ''End'' \<Longrightarrow>
   handleKeyPress (Array (TabListEl l (Array ts) # rest)) a e =
     Inr (Num (int (length ts) - 1), preventDefault e)"
  by (simp add: handleKeyPress_def tabListLength_Array ToNumber_def)

text \<open>
  C2. For every N \<ge> 1, Home sets ActiveIndex to 0 and End sets it to N - 1. With exactly
  one \<^verbatim>\<open>Tab\<close> written as the child of \<^verbatim>\<open>TabList\<close>, \<^verbatim>\<open>props.children\<close> is that element
  and has no \<^verbatim>\<open>length\<close>: \<^verbatim>\<open>tabListLength\<close> is \<^verbatim>\<open>undefined\<close>, and End sets ActiveIndex to
  \<^verbatim>\<open>undefined - 1\<close>, which is \<^verbatim>\<open>NaN\<close>, where the last tab is tab 0. Home sets it to 0.
\<close>

theorem End_single_tab_NaN:
  "Children_count (Single drip_tab) = 1
   \<and> handleKeyPress one_tab (Num 0) (pressed ''End'') = Inr (NaN, preventDefault (pressed ''End''))
   \<and> handleKeyPress one_tab (Num 0) (pressed ''Home'') = Inr (Num 0, preventDefault (pressed ''Home''))"
  by (simp add: handleKeyPress_def tabListLength_one_tab ToNumber_def pressed_def)

section \<open>Other keys\<close>

text \<open>A key that is not handled changes nothing, also when the first line throws.\<close>

lemma other_key_no_effect:
  "key e \<notin> {''ArrowLeft'', ''ArrowRight'', ''Home'', ''End''} \<Longrightarrow>
   handleKeyPress cs a e = Inr (a, e) \<or> handleKeyPress cs a e = Inl TypeError"
proof (cases "tabListLength cs")
  case (Inl err)
  then show ?thesis by (cases err) (simp add: handleKeyPress_def)
next
  case (Inr len)
  assume "key e \<notin> {''ArrowLeft'', ''ArrowRight'', ''Home'', ''End''}"
  with Inr show ?thesis by (simp add: handleKeyPress_def)
qed



section \<open>The range of ActiveIndex\<close>

lemma initial_in_range: "0 < n \<Longrightarrow> in_range n initial_activeTab"
  by (simp add: initial_activeTab_def)

lemma select_in_range: "i < n \<Longrightarrow> in_range n (TabPanel_onSelectTab (Num (int i)) a)"
  by (simp add: TabPanel_onSelectTab_def setActiveTab_def)

text \<open>With the tabs in an array, no key takes ActiveIndex out of range.\<close>

lemma key_in_range_Array:
  assumes "in_range (length ts) a"
    and "handleKeyPress (Array (TabListEl l (Array ts) # rest)) a e = Inr (a', e')"
  shows "in_range (length ts) a'"
proof -
  from assms(1) obtain i where a: "a = Num i" and i: "0 \<le> i" "i < int (length ts)"
    by (cases a) simp_all
  show ?thesis
    using assms(2) i
    by (auto simp: a handleKeyPress_def tabListLength_Array ToNumber_def strict_neq_def
             split: if_splits)
qed

text \<open>
  C4. ActiveIndex starts at 0, and 0 \<le> ActiveIndex < N is kept by every key and every
  selection. With a single \<^verbatim>\<open>Tab\<close> child the state starts in range, and ArrowRight takes
  it to 1 and ArrowLeft to \<^verbatim>\<open>NaN\<close>, both out of range: \<^verbatim>\<open>tabListLength - 1\<close> is \<^verbatim>\<open>NaN\<close>,
  which no index equals.
\<close>

theorem single_tab_leaves_range:
  "initial_activeTab = Num 0
   \<and> in_range (Children_count (Single drip_tab)) initial_activeTab
   \<and> handleKeyPress one_tab initial_activeTab (pressed ''ArrowRight'')
       = Inr (Num 1, preventDefault (pressed ''ArrowRight''))
   \<and> in_range (Children_count (Single drip_tab)) (Num 1) = False
   \<and> handleKeyPress one_tab initial_activeTab (pressed ''ArrowLeft'')
       = Inr (NaN, preventDefault (pressed ''ArrowLeft''))
   \<and> in_range (Children_count (Single drip_tab)) NaN = False"
  by (simp add: handleKeyPress_def tabListLength_one_tab ToNumber_def pressed_def
        initial_activeTab_def strict_neq_def)

section \<open>What TabList gives each Tab\<close>

lemma Children_map_length: "length (Children_map cs fn) = Children_count cs"
  by (cases cs) simp_all

lemma TabList_child_length:
  "length (TabList_child cs a onSel onKey tf) = Children_count cs"
  by (simp add: TabList_child_def Children_map_length)

lemma TabList_child_active:
  "j < Children_count cs \<Longrightarrow>
   active (TabList_child cs a onSel onKey tf ! j) = strict_eq (Num (int j)) a"
  by (cases cs) (simp_all add: TabList_child_def)

lemma TabList_child_onSelectTab:
  "j < Children_count cs \<Longrightarrow>
   onSelectTab (TabList_child cs a onSel onKey tf ! j) = onSel (Num (int j))"
  by (cases cs) (simp_all add: TabList_child_def)

lemma TabList_child_tabFocus:
  "j < Children_count cs \<Longrightarrow> tabFocus (TabList_child cs a onSel onKey tf ! j) = tf"
  by (cases cs) (simp_all add: TabList_child_def)

lemma Tab_tabIndex: "tabIndex (Tab p) = (if active p then 0 else - 1)"
  by (simp add: Tab_def)

lemma Tab_ref: "ref (Tab p) = (if active p then Some (tabFocus p) else None)"
  by (simp add: Tab_def)

lemma Tab_onClick: "onClick (Tab p) = onSelectTab p"
  by (simp add: Tab_def)

lemma TabList_buttons:
  "tablist_children (TabList cs a onSel onKey l tf) = map Tab (TabList_child cs a onSel onKey tf)"
  by (simp add: TabList_def)

lemma TabList_buttons_length:
  "length (tablist_children (TabList cs a onSel onKey l tf)) = Children_count cs"
  by (simp add: TabList_buttons TabList_child_length)

section \<open>Selecting a tab\<close>

text \<open>
  C5. A click on the Tab at index j sets ActiveIndex to j whatever it was before: the
  callback \<^verbatim>\<open>TabList\<close> gives that Tab calls \<^verbatim>\<open>onSelectTab\<close> with the Tab's own index.
\<close>

theorem click_selects_own_index:
  assumes "j < Children_count tabs"
  shows "onClick (tablist_children (TabList tabs a TabPanel_onSelectTab onKey l tf) ! j) prev
           = Num (int j)"
  using assms
  by (simp add: TabList_buttons TabList_child_length Tab_onClick TabList_child_onSelectTab
        TabPanel_onSelectTab_def setActiveTab_def)

theorem click_selects_own_index_witness:
  "2 < Children_count coffee_tabs
   \<and> onClick (tablist_children
        (TabList coffee_tabs (Num 0) TabPanel_onSelectTab (handleKeyPress coffee (Num 0))
           ''Types of coffee'' 0) ! 2) (Num 0) = Num 2"
proof -
  have j: "2 < Children_count coffee_tabs"
    by (simp add: coffee_tabs_def)
  show ?thesis
    using j click_selects_own_index [OF j, of "Num 0" "handleKeyPress coffee (Num 0)"
                                       "''Types of coffee''" 0 "Num 0"]
    by simp
qed

section \<open>One active tab\<close>

lemma filter_eq_upt: "k < n \<Longrightarrow> filter (\<lambda>j. j = k) [0..<n] = [k]"
  by (induction n) (auto simp: less_Suc_eq)

lemma count_true_upt: "k < n \<Longrightarrow> length (filter (\<lambda>b. b) (map (\<lambda>j. j = k) [0..<n])) = 1"
  by (simp add: filter_map comp_def filter_eq_upt)

lemma active_map:
  assumes "0 \<le> i" and "i < int (Children_count cs)"
  shows "map active (TabList_child cs (Num i) onSel onKey tf) =
           map (\<lambda>j. j = nat i) [0..<Children_count cs]"
proof (rule nth_equalityI)
  show "length (map active (TabList_child cs (Num i) onSel onKey tf)) =
        length (map (\<lambda>j. j = nat i) [0..<Children_count cs])"
    by (simp add: TabList_child_length)
next
  fix j assume "j < length (map active (TabList_child cs (Num i) onSel onKey tf))"
  then have j: "j < Children_count cs"
    by (simp add: TabList_child_length)
  have "active (TabList_child cs (Num i) onSel onKey tf ! j) = (int j = i)"
    using TabList_child_active [OF j] by simp
  moreover have "(int j = i) = (j = nat i)"
    using assms(1) by linarith
  ultimately show "map active (TabList_child cs (Num i) onSel onKey tf) ! j =
                   map (\<lambda>j. j = nat i) [0..<Children_count cs] ! j"
    using j by (simp add: TabList_child_length)
qed

text \<open>
  C7. With N \<ge> 1 tabs and 0 \<le> ActiveIndex < N, the Tab at ActiveIndex is the only one
  \<^verbatim>\<open>TabList\<close> marks active, and the only button with \<^verbatim>\<open>tabIndex\<close> 0; every other button has
  \<^verbatim>\<open>tabIndex\<close> -1.
\<close>

theorem one_active_one_focusable:
  assumes "0 \<le> i" and "i < int (Children_count tabs)"
  shows "map active (TabList_child tabs (Num i) onSel onKey tf) =
           map (\<lambda>j. j = nat i) [0..<Children_count tabs]
       \<and> length (filter active (TabList_child tabs (Num i) onSel onKey tf)) = 1
       \<and> map tabIndex (tablist_children (TabList tabs (Num i) onSel onKey l tf)) =
           map (\<lambda>j. if j = nat i then 0 else - 1) [0..<Children_count tabs]
       \<and> length (filter (\<lambda>b. tabIndex b = 0)
                   (tablist_children (TabList tabs (Num i) onSel onKey l tf))) = 1"
proof -
  let ?ps = "TabList_child tabs (Num i) onSel onKey tf"
  let ?n = "Children_count tabs"
  have k: "nat i < ?n"
    using assms by linarith
  have act: "map active ?ps = map (\<lambda>j. j = nat i) [0..<?n]"
    using assms by (rule active_map)
  have "length (filter active ?ps) = length (filter (\<lambda>b. b) (map active ?ps))"
    by (simp add: filter_map comp_def)
  also have "\<dots> = length (filter (\<lambda>b. b) (map (\<lambda>j. j = nat i) [0..<?n]))"
    by (simp only: act)
  also have "\<dots> = 1"
    using k by (rule count_true_upt)
  finally have one: "length (filter active ?ps) = 1" .
  have "map tabIndex (map Tab ?ps) = map (\<lambda>b. if b then 0 else - 1) (map active ?ps)"
    by (simp add: Tab_tabIndex)
  then have idx: "map tabIndex (map Tab ?ps) = map (\<lambda>j. if j = nat i then 0 else - 1) [0..<?n]"
    by (simp add: act)
  have "filter (\<lambda>b. tabIndex b = 0) (map Tab ?ps) = map Tab (filter active ?ps)"
    by (simp add: filter_map comp_def Tab_tabIndex)
  then have foc: "length (filter (\<lambda>b. tabIndex b = 0) (map Tab ?ps)) = 1"
    using one by simp
  show ?thesis
    using act one idx foc by (simp add: TabList_buttons)
qed

theorem one_active_one_focusable_witness:
  "1 < int (Children_count coffee_tabs)
   \<and> map active (TabList_child coffee_tabs (Num 1) TabPanel_onSelectTab
                    (handleKeyPress coffee (Num 1)) 0) = [False, True, False]
   \<and> map tabIndex (tablist_children
        (TabList coffee_tabs (Num 1) TabPanel_onSelectTab (handleKeyPress coffee (Num 1))
           ''Types of coffee'' 0)) = [- 1, 0, - 1]"
proof -
  have i: "(0::int) \<le> 1" "1 < int (Children_count coffee_tabs)"
    by (simp_all add: coffee_tabs_def)
  have n: "[0..<Children_count coffee_tabs] = [0, 1, 2]"
    by (simp add: coffee_tabs_def upt_rec)
  show ?thesis
    using i(2) one_active_one_focusable [OF i, of TabPanel_onSelectTab
                                           "handleKeyPress coffee (Num 1)" 0 "''Types of coffee''"]
    by (simp add: n)
qed

section \<open>Panels\<close>

text \<open>
  With the panels in an array, the one at ActiveIndex is rendered, and none when
  ActiveIndex is out of range or \<^verbatim>\<open>NaN\<close>: no wraparound, no validation, no error.
\<close>

lemma Panels_Array_in_range:
  "0 \<le> i \<Longrightarrow> i < int (length ps) \<Longrightarrow> Panels (Array ps) (Num i) = Inr [Panel (ps ! nat i)]"
  by (simp add: Panels_def)

lemma Panels_Array_out_of_range:
  "\<not> in_range (length ps) a \<Longrightarrow> Panels (Array ps) a = Inr []"
  by (cases a) (simp_all add: Panels_def)

text \<open>
  C6. \<^verbatim>\<open>Panels\<close> renders exactly the Panel child at position ActiveIndex, and nothing for an
  ActiveIndex out of range. With a single \<^verbatim>\<open>Panel\<close> written as its child, \<^verbatim>\<open>children\<close> is
  that element, \<^verbatim>\<open>children[0]\<close> is \<^verbatim>\<open>undefined\<close>, and nothing is rendered at ActiveIndex 0,
  which is in range.
\<close>

theorem Panels_single_panel_empty:
  "Children_count (Single drip_panel) = 1
   \<and> in_range (Children_count (Single drip_panel)) (Num 0)
   \<and> Panels (Single drip_panel) (Num 0) = Inr []"
  by (simp add: Panels_def)

section \<open>Focus\<close>

lemma ref_map:
  assumes "0 \<le> i" and "i < int (Children_count tabs)"
  shows "map ref (tablist_children (TabList tabs (Num i) onSel onKey l tf)) =
           map (\<lambda>j. if j = nat i then Some tf else None) [0..<Children_count tabs]"
proof (rule nth_equalityI)
  show "length (map ref (tablist_children (TabList tabs (Num i) onSel onKey l tf))) =
        length (map (\<lambda>j. if j = nat i then Some tf else None) [0..<Children_count tabs])"
    by (simp add: TabList_buttons_length)
next
  fix j assume "j < length (map ref (tablist_children (TabList tabs (Num i) onSel onKey l tf)))"
  then have j: "j < Children_count tabs"
    by (simp add: TabList_buttons_length)
  have "(int j = i) = (j = nat i)"
    using assms(1) by linarith
  then show "map ref (tablist_children (TabList tabs (Num i) onSel onKey l tf)) ! j =
        map (\<lambda>j. if j = nat i then Some tf else None) [0..<Children_count tabs] ! j"
    using j by (simp add: TabList_buttons TabList_child_length Tab_ref
                  TabList_child_active TabList_child_tabFocus)
qed

lemma ref_current_unique:
  assumes "k < n" and "length bs = n"
    and "map ref bs = map (\<lambda>j. if j = k then Some r else None) [0..<n]"
  shows "ref_current r bs = Some k"
proof -
  have "ref (bs ! j) = (if j = k then Some r else None)" if "j < n" for j
  proof -
    from that have "map ref bs ! j = ref (bs ! j)"
      using assms(2) by simp
    with that show ?thesis
      using assms(3) by simp
  qed
  then have "filter (\<lambda>j. ref (bs ! j) = Some r) [0..<n] = filter (\<lambda>j. j = k) [0..<n]"
    by (intro filter_cong) auto
  then show ?thesis
    using assms(1,2) by (simp add: ref_current_def filter_eq_upt)
qed

lemma Panels_no_error: "ps \<noteq> Missing \<Longrightarrow> \<exists>shown. Panels ps a = Inr shown"
  by (cases ps; cases a) (simp_all add: Panels_def)

lemma TabPanel_buttons:
  assumes "ps \<noteq> Missing"
  shows "\<exists>rs. TabPanel (Array [TabListEl l tabs, PanelsEl ps]) a tf = Inr rs
            \<and> rendered_buttons rs =
                tablist_children (TabList tabs a TabPanel_onSelectTab
                  (handleKeyPress (Array [TabListEl l tabs, PanelsEl ps]) a) l tf)"
proof -
  from assms obtain shown where "Panels ps a = Inr shown"
    using Panels_no_error by blast
  then show ?thesis
    by (simp add: TabPanel_def render_child_def rendered_buttons_def)
qed

lemma after_render_TabList:
  assumes "ps \<noteq> Missing"
  shows "after_render (Array [TabListEl l tabs, PanelsEl ps]) a tf =
           focus_effect (ref_current tf (tablist_children (TabList tabs a TabPanel_onSelectTab
             (handleKeyPress (Array [TabListEl l tabs, PanelsEl ps]) a) l tf)))"
proof -
  obtain rs where "TabPanel (Array [TabListEl l tabs, PanelsEl ps]) a tf = Inr rs"
    and "rendered_buttons rs =
           tablist_children (TabList tabs a TabPanel_onSelectTab
             (handleKeyPress (Array [TabListEl l tabs, PanelsEl ps]) a) l tf)"
    using TabPanel_buttons [OF assms] by blast
  then show ?thesis
    by (simp add: after_render_def)
qed

text \<open>A render in which no Tab is active leaves the handle empty, and the effect throws.\<close>

lemma no_active_tab_effect_throws: "after_render one_tab NaN tf = Inl TypeError"
  by (simp add: after_render_def TabPanel_def render_child_def Panels_def one_tab_def
        rendered_buttons_def focus_effect_def ref_current_def TabList_def TabList_child_def
        Tab_def)

text \<open>
  With ActiveIndex in range, only the active Tab is rendered with the shared handle as
  its ref, every other Tab with none; the handle then refers to the Tab at ActiveIndex,
  and the effect that follows the render, the first (ActiveIndex 0) included, moves the
  focus to it.
\<close>

lemma focus_in_range:
  assumes "0 \<le> i" and "i < int (Children_count tabs)" and "ps \<noteq> Missing"
  shows "map ref (tablist_children (TabList tabs (Num i) onSel onKey l tf)) =
           map (\<lambda>j. if j = nat i then Some tf else None) [0..<Children_count tabs]
       \<and> ref_current tf (tablist_children (TabList tabs (Num i) onSel onKey l tf)) = Some (nat i)
       \<and> after_render (Array [TabListEl l tabs, PanelsEl ps]) (Num i) tf = Inr (nat i)
       \<and> after_render (Array [TabListEl l tabs, PanelsEl ps]) initial_activeTab tf = Inr 0"
proof -
  have k: "nat i < Children_count tabs"
    using assms by linarith
  have cur: "ref_current tf (tablist_children (TabList tabs (Num i) f g l tf)) = Some (nat i)"
    for f g
    using k TabList_buttons_length ref_map [OF assms(1,2)] by (rule ref_current_unique)
  have zero: "(0::int) \<le> 0" "0 < int (Children_count tabs)"
    using assms by simp_all
  have cur0: "ref_current tf (tablist_children (TabList tabs (Num 0) f g l tf)) = Some 0"
    for f g
    using ref_current_unique [OF _ TabList_buttons_length ref_map [OF zero]] zero(2) by simp
  show ?thesis
    using ref_map [OF assms(1,2)] cur cur0
    by (simp add: after_render_TabList [OF assms(3)] focus_effect_def initial_activeTab_def)
qed

lemma focus_in_range_coffee:
  "map ref (tablist_children
     (TabList coffee_tabs (Num 2) TabPanel_onSelectTab (handleKeyPress coffee (Num 2))
        ''Types of coffee'' 7)) = [None, None, Some 7]
   \<and> after_render coffee (Num 2) 7 = Inr 2
   \<and> after_render coffee initial_activeTab 7 = Inr 0"
proof -
  have i: "(0::int) \<le> 2" "2 < int (Children_count coffee_tabs)" and p: "coffee_panels \<noteq> Missing"
    by (simp_all add: coffee_tabs_def coffee_panels_def)
  have n: "[0..<Children_count coffee_tabs] = [0, 1, 2]"
    by (simp add: coffee_tabs_def upt_rec)
  show ?thesis
    using focus_in_range [OF i p, of TabPanel_onSelectTab
                            "handleKeyPress coffee (Num 2)" "''Types of coffee''" 7]
    by (simp add: n coffee_def)
qed

text \<open>
  C8. Only the active Tab is rendered with the shared handle as its ref, so after any
  change of ActiveIndex the handle refers to the Tab at the new ActiveIndex, and the
  effect after every render moves the focus to it. With a single \<^verbatim>\<open>Tab\<close> child the first
  render focuses tab 0; ArrowRight then sets ActiveIndex to 1, the next render has no
  active Tab (the only Tab is rendered with no ref), the handle is left empty, and the
  effect \<^verbatim>\<open>tabFocus.current.focus()\<close> throws a \<^verbatim>\<open>TypeError\<close>.
\<close>

theorem single_tab_focus_lost:
  "after_render one_tab initial_activeTab tf = Inr 0
   \<and> handleKeyPress one_tab initial_activeTab (pressed ''ArrowRight'')
       = Inr (Num 1, preventDefault (pressed ''ArrowRight''))
   \<and> map ref (tablist_children
        (TabList (Single drip_tab) (Num 1) TabPanel_onSelectTab (handleKeyPress one_tab (Num 1))
           ''Types of coffee'' tf)) = [None]
   \<and> after_render one_tab (Num 1) tf = Inl TypeError"
  by (simp add: after_render_def TabPanel_def render_child_def Panels_def one_tab_def
        rendered_buttons_def focus_effect_def ref_current_def TabList_def TabList_child_def
        Tab_def handleKeyPress_def tabListLength_def ToNumber_def pressed_def
        initial_activeTab_def strict_neq_def)

section \<open>Empty and missing children\<close>

text \<open>
  C9. With no tab, the read of the last index in \<^verbatim>\<open>handleKeyPress\<close> raises an error. It
  does not when the tab list is an empty array: the length is 0 and the last index is -1.
\<close>

theorem empty_array_last_index:
  "Children_count (Array ([] :: tab_el list)) = 0
   \<and> tabListLength no_tabs = Inr (Some (Num 0))
   \<and> handleKeyPress no_tabs (Num 0) (pressed ''End'')
       = Inr (Num (- 1), \<lparr>key = ''End'', defaultPrevented = True\<rparr>)"
  by (simp add: no_tabs_def handleKeyPress_def tabListLength_def ToNumber_def pressed_def
        preventDefault_def)

text \<open>
  C9, as the code has it. The read raises a \<^verbatim>\<open>TypeError\<close>, whatever the key, when
  \<^verbatim>\<open>TabPanel\<close> has no element at \<^verbatim>\<open>children[0]\<close> (no child, a single child, an empty
  array) or when the \<^verbatim>\<open>TabList\<close> has no \<^verbatim>\<open>children\<close> prop. When the \<^verbatim>\<open>TabList\<close>'s children
  are an empty array the read gives 0, End sets ActiveIndex to -1, and nothing is raised.
\<close>

theorem last_index_error_when_missing:
  "handleKeyPress Missing a e = Inl TypeError
   \<and> handleKeyPress (Single c) a e = Inl TypeError
   \<and> handleKeyPress (Array []) a e = Inl TypeError
   \<and> tabListLength (Array (TabListEl l Missing # rest)) = Inl TypeError
   \<and> handleKeyPress (Array (TabListEl l Missing # rest)) a e = Inl TypeError
   \<and> tabListLength (Array (TabListEl l (Array []) # rest)) = Inr (Some (Num 0))
   \<and> handleKeyPress (Array (TabListEl l (Array []) # rest)) a (e\<lparr>key := ''End''\<rparr>)
       = Inr (Num (- 1), preventDefault (e\<lparr>key := ''End''\<rparr>))"
  by (simp add: handleKeyPress_def tabListLength_def ToNumber_def)

section \<open>ArrowLeft and ArrowRight undo each other\<close>

text \<open>With the tabs in an array of any length N \<ge> 1, the two arrows are mutual inverses.\<close>

lemma arrows_inverse_Array:
  assumes "in_range (length ts) a"
  shows "\<exists>b. handleKeyPress (Array (TabListEl l (Array ts) # rest)) a (e\<lparr>key := ''ArrowLeft''\<rparr>)
               = Inr (b, preventDefault (e\<lparr>key := ''ArrowLeft''\<rparr>))
           \<and> handleKeyPress (Array (TabListEl l (Array ts) # rest)) b (e\<lparr>key := ''ArrowRight''\<rparr>)
               = Inr (a, preventDefault (e\<lparr>key := ''ArrowRight''\<rparr>))"
    and "\<exists>b. handleKeyPress (Array (TabListEl l (Array ts) # rest)) a (e\<lparr>key := ''ArrowRight''\<rparr>)
               = Inr (b, preventDefault (e\<lparr>key := ''ArrowRight''\<rparr>))
           \<and> handleKeyPress (Array (TabListEl l (Array ts) # rest)) b (e\<lparr>key := ''ArrowLeft''\<rparr>)
               = Inr (a, preventDefault (e\<lparr>key := ''ArrowLeft''\<rparr>))"
proof -
  from assms obtain i where a: "a = Num i" and i: "0 \<le> i" "i < int (length ts)"
    by (cases a) simp_all
  show "\<exists>b. handleKeyPress (Array (TabListEl l (Array ts) # rest)) a (e\<lparr>key := ''ArrowLeft''\<rparr>)
               = Inr (b, preventDefault (e\<lparr>key := ''ArrowLeft''\<rparr>))
           \<and> handleKeyPress (Array (TabListEl l (Array ts) # rest)) b (e\<lparr>key := ''ArrowRight''\<rparr>)
               = Inr (a, preventDefault (e\<lparr>key := ''ArrowRight''\<rparr>))"
    using i by (simp add: a handleKeyPress_def tabListLength_Array ToNumber_def strict_neq_def)
  show "\<exists>b. handleKeyPress (Array (TabListEl l (Array ts) # rest)) a (e\<lparr>key := ''ArrowRight''\<rparr>)
               = Inr (b, preventDefault (e\<lparr>key := ''ArrowRight''\<rparr>))
           \<and> handleKeyPress (Array (TabListEl l (Array ts) # rest)) b (e\<lparr>key := ''ArrowLeft''\<rparr>)
               = Inr (a, preventDefault (e\<lparr>key := ''ArrowLeft''\<rparr>))"
    using i by (simp add: a handleKeyPress_def tabListLength_Array ToNumber_def strict_neq_def)
qed

text \<open>
  C10. For N \<ge> 1 and ActiveIndex in range, ArrowLeft then ArrowRight gives ActiveIndex
  back, and so does ArrowRight then ArrowLeft. With a single \<^verbatim>\<open>Tab\<close> child, ArrowLeft takes
  ActiveIndex 0 to \<^verbatim>\<open>NaN\<close> and ArrowRight leaves it there.
\<close>

theorem single_tab_left_right_NaN:
  "in_range (Children_count (Single drip_tab)) (Num 0)
   \<and> handleKeyPress one_tab (Num 0) (pressed ''ArrowLeft'')
       = Inr (NaN, preventDefault (pressed ''ArrowLeft''))
   \<and> handleKeyPress one_tab NaN (pressed ''ArrowRight'')
       = Inr (NaN, preventDefault (pressed ''ArrowRight''))"
  by (simp add: handleKeyPress_def tabListLength_one_tab ToNumber_def pressed_def
        strict_neq_def)

section \<open>The whole widget\<close>

text \<open>
  What \<^verbatim>\<open>TabPanel\<close> renders from a \<^verbatim>\<open>TabList\<close> and a \<^verbatim>\<open>Panels\<close> with an array of panels:
  the tab list built from its own state and callbacks, and the panels.
\<close>

lemma TabPanel_renders:
  "TabPanel (Array [TabListEl l tabs, PanelsEl (Array ps)]) (Num i) tf =
     Inr [RTabList (TabList tabs (Num i) TabPanel_onSelectTab
                      (handleKeyPress (Array [TabListEl l tabs, PanelsEl (Array ps)]) (Num i)) l tf),
          RPanels (if 0 \<le> i \<and> i < int (length ps) then [Panel (ps ! nat i)] else [])]"
  by (simp add: TabPanel_def render_child_def Panels_def)

text \<open>
  The scenarios of the specification, on three tabs: ArrowRight twice from 0 gives 2,
  once more 0, ArrowLeft then 2; from 1, Home gives 0 and End gives 2.
\<close>

lemma scenario_arrows:
  "handleKeyPress coffee (Num 0) (pressed ''ArrowRight'') = Inr (Num 1, preventDefault (pressed ''ArrowRight''))"
  "handleKeyPress coffee (Num 1) (pressed ''ArrowRight'') = Inr (Num 2, preventDefault (pressed ''ArrowRight''))"
  "handleKeyPress coffee (Num 2) (pressed ''ArrowRight'') = Inr (Num 0, preventDefault (pressed ''ArrowRight''))"
  "handleKeyPress coffee (Num 0) (pressed ''ArrowLeft'') = Inr (Num 2, preventDefault (pressed ''ArrowLeft''))"
  by (simp_all add: handleKeyPress_def tabListLength_coffee ToNumber_def pressed_def strict_neq_def)

lemma scenario_home_end:
  "handleKeyPress coffee (Num 1) (pressed ''Home'') = Inr (Num 0, preventDefault (pressed ''Home''))"
  "handleKeyPress coffee (Num 1) (pressed ''End'') = Inr (Num 2, preventDefault (pressed ''End''))"
  by (simp_all add: handleKeyPress_def tabListLength_coffee ToNumber_def pressed_def)

end
